theory Spec2Isabelle
  imports Complex_Main
begin

section \<open>Flood propagation over an elevation grid (backend/main.py)\<close>

text \<open>
  Elevations are Python integers (\<open>int\<close>); water volumes and coordinates are Python
  floats. A float is modelled by the real number it denotes; a real beyond \<open>DBL_MAX\<close> in
  magnitude stands for an infinity. Division is Python 3 true division.

  The coordinate functions use only \<open>+\<close>, \<open>-\<close>, \<open>*\<close> and \<open>/\<close>, which IEEE 754 fixes
  bit for bit: each is modelled with its rounding to the nearest double (\<open>rnd\<close>).
  \<^verbatim>\<open>weight\<close> goes through the C library's \<^verbatim>\<open>pow\<close>, whose last bit the language
  does not fix: the values of \<^verbatim>\<open>weight\<close> and of \<^verbatim>\<open>tick\<close> are modelled in exact
  arithmetic, and the OverflowError that \<^verbatim>\<open>**\<close> raises is an error of the model.
\<close>

subsection \<open>Errors and Python list indexing\<close>

text \<open>
  \<open>OutOfRange\<close> is the \<^verbatim>\<open>Exception\<close> raised by \<^verbatim>\<open>getWater\<close>;
  \<open>IndexError\<close>, \<open>ZeroDivisionError\<close> and \<open>OverflowError\<close> are the interpreter's own.
\<close>

datatype error = OutOfRange | IndexError | ZeroDivisionError | OverflowError

definition bind_err :: "error + 'a \<Rightarrow> ('a \<Rightarrow> error + 'b) \<Rightarrow> error + 'b" where
  "bind_err m f = (case m of Inl e \<Rightarrow> Inl e | Inr v \<Rightarrow> f v)"

text \<open>\<^verbatim>\<open>xs[i]\<close>: a negative index counts from the end, anything else out of range raises.\<close>

definition py_index :: "'a list \<Rightarrow> int \<Rightarrow> error + 'a" where
  "py_index xs i =
     (let n = int (length xs); k = (if i < 0 then n + i else i)
      in if 0 \<le> k \<and> k < n then Inr (xs ! nat k) else Inl IndexError)"

text \<open>\<^verbatim>\<open>xs[i] = v\<close>, with the same index rule.\<close>

definition py_store :: "'a list \<Rightarrow> int \<Rightarrow> 'a \<Rightarrow> error + 'a list" where
  "py_store xs i v =
     (let n = int (length xs); k = (if i < 0 then n + i else i)
      in if 0 \<le> k \<and> k < n then Inr (xs[nat k := v]) else Inl IndexError)"

text \<open>\<^verbatim>\<open>range(a, b)\<close> over integers, and float division.\<close>

definition py_range :: "int \<Rightarrow> int \<Rightarrow> int list" where
  "py_range a b = [a .. b - 1]"

definition py_div :: "real \<Rightarrow> real \<Rightarrow> error + real" where
  "py_div a b = (if b = 0 then Inl ZeroDivisionError else Inr (a / b))"

subsection \<open>Doubles\<close>

text \<open>The largest finite double, \<open>2 ^ 1024 - 2 ^ 971\<close>.\<close>

definition DBL_MAX :: real where
  "DBL_MAX = (2 ^ 53 - 1) * 2 ^ 971"

text \<open>Rounding to the nearest integer, a tie going to the even one.\<close>

definition round_half_even :: "real \<Rightarrow> int" where
  "round_half_even z =
     (let f = \<lfloor>z\<rfloor>; r = z - real_of_int f
      in if r < 1 / 2 then f else if 1 / 2 < r then f + 1 else if even f then f else f + 1)"

text \<open>
  The exponent of the last place of the double nearest to \<open>x\<close>: 52 below the exponent of
  \<open>x\<close>, and \<open>- 1074\<close> throughout the subnormal range.
\<close>

definition ulp_exponent :: "real \<Rightarrow> int" where
  "ulp_exponent x = max \<lfloor>log 2 \<bar>x\<bar>\<rfloor> (- 1022) - 52"

text \<open>
  Round to nearest, ties to even, on a 53-bit significand. The result exceeds \<open>DBL_MAX\<close>
  exactly when the IEEE operation returns an infinity.
\<close>

definition rnd :: "real \<Rightarrow> real" where
  "rnd x =
     (if x = 0 then 0
      else real_of_int (round_half_even (x / 2 powr real_of_int (ulp_exponent x))) *
           2 powr real_of_int (ulp_exponent x))"

definition fl_add :: "real \<Rightarrow> real \<Rightarrow> real" where
  "fl_add a b = rnd (a + b)"

definition fl_sub :: "real \<Rightarrow> real \<Rightarrow> real" where
  "fl_sub a b = rnd (a - b)"

definition fl_mul :: "real \<Rightarrow> real \<Rightarrow> real" where
  "fl_mul a b = rnd (a * b)"

text \<open>Division by a non-zero constant (the source divides by the literal 1201 only).\<close>

definition fl_div :: "real \<Rightarrow> real \<Rightarrow> real" where
  "fl_div a b = rnd (a / b)"

text \<open>
  An \<^verbatim>\<open>int\<close> operand of a float operation is converted to the nearest double; the
  conversion raises OverflowError when the integer is too large.
\<close>

definition py_float :: "int \<Rightarrow> error + real" where
  "py_float n =
     (if DBL_MAX < \<bar>rnd (real_of_int n)\<bar> then Inl OverflowError else Inr (rnd (real_of_int n)))"

text \<open>
  \<^verbatim>\<open>int(v)\<close> on a float truncates towards zero, and raises OverflowError on an
  infinity.
\<close>

definition py_int :: "real \<Rightarrow> error + int" where
  "py_int v =
     (if DBL_MAX < \<bar>v\<bar> then Inl OverflowError else Inr (if 0 \<le> v then \<lfloor>v\<rfloor> else \<lceil>v\<rceil>))"

text \<open>
  \<^verbatim>\<open>b ** x\<close> on floats with a positive base: OverflowError when the power is beyond the
  doubles; the value itself is not rounded (see the head of this theory).
\<close>

definition py_pow :: "real \<Rightarrow> real \<Rightarrow> error + real" where
  "py_pow b x = (if DBL_MAX < b powr x then Inl OverflowError else Inr (b powr x))"

subsection \<open>The class hgtMap\<close>

text \<open>
  \<^verbatim>\<open>self.data[y][x]\<close> is the two-element list \<^verbatim>\<open>[height, water]\<close>, here a pair.
  The constructor builds every cell and every row afresh, so the grid has no shared storage
  and is modelled by value.
\<close>

record hgtMap =
  data :: "(int \<times> real) list list"
  maxX :: int
  maxY :: int
  minFloodHeight :: real

definition hgtMap_init :: "int list list \<Rightarrow> error + hgtMap" where
  "hgtMap_init hgtStartData =
     bind_err (py_index hgtStartData 0) (\<lambda>row0.
       Inr \<lparr>data = map (map (\<lambda>height. (height, 0))) hgtStartData,
            maxX = int (length row0) - 1,
            maxY = int (length hgtStartData) - 1,
            minFloodHeight = 0\<rparr>)"

text \<open>
  \<^verbatim>\<open>x * 1.0 / 1201\<close> converts the integer, multiplies and divides, each step rounded. The
  two clamps of \<open>x\<close> and \<open>y\<close> come after \<open>deltaX\<close> and \<open>deltaY\<close> are computed.
\<close>

definition pointToLatLong :: "int \<Rightarrow> int \<Rightarrow> error + real \<times> real" where
  "pointToLatLong x y =
     bind_err (py_float x) (\<lambda>fx.
     bind_err (py_float y) (\<lambda>fy.
       let deltaX = fl_div (fl_mul fx 1.0) 1201;
           deltaY = fl_div (fl_mul fy 1.0) 1201;
           y1 = (if y > 1 then 1 else y);
           x1 = (if x > 1 then 1 else x)
       in Inr (fl_sub 41 deltaY, - fl_add 73 deltaX)))"

definition latLongToPointApprox :: "real \<Rightarrow> real \<Rightarrow> error + int \<times> int" where
  "latLongToPointApprox lat long =
     bind_err (py_int (fl_mul (- 1201) (fl_sub lat 41))) (\<lambda>y.
     bind_err (py_int (fl_mul (- 1201) (fl_add long 73))) (\<lambda>x.
       let y = (if y > 1200 then 1200 else y);
           x = (if x > 1200 then 1200 else x);
           y = (if y < 0 then 0 else y);
           x = (if x < 0 then 0 else x)
       in Inr (x, y)))"

definition getHeight :: "hgtMap \<Rightarrow> int \<Rightarrow> int \<Rightarrow> error + int" where
  "getHeight m x y =
     (if x > maxX m \<or> y > maxY m \<or> x < 0 \<or> y < 0 then Inr 10000000
      else bind_err (py_index (data m) y) (\<lambda>row.
           bind_err (py_index row x) (\<lambda>cell. Inr (fst cell))))"

definition getWater :: "hgtMap \<Rightarrow> int \<Rightarrow> int \<Rightarrow> error + real" where
  "getWater m x y =
     (if x > maxX m \<or> y > maxY m \<or> x < 0 \<or> y < 0 then Inl OutOfRange
      else bind_err (py_index (data m) y) (\<lambda>row.
           bind_err (py_index row x) (\<lambda>cell. Inr (snd cell))))"

text \<open>\<^verbatim>\<open>self.data[y][x][1] = waterLevel\<close>\<close>

definition data_write :: "hgtMap \<Rightarrow> int \<Rightarrow> int \<Rightarrow> real \<Rightarrow> error + hgtMap" where
  "data_write m x y waterLevel =
     bind_err (py_index (data m) y) (\<lambda>row.
     bind_err (py_index row x) (\<lambda>cell.
     bind_err (py_store row x (fst cell, waterLevel)) (\<lambda>row'.
     bind_err (py_store (data m) y row') (\<lambda>data'.
       Inr (m\<lparr>data := data'\<rparr>)))))"

text \<open>
  The guard of \<^verbatim>\<open>setWater\<close> has the body \<^verbatim>\<open>pass\<close>: both branches go on to
  the assignment.
\<close>

definition setWater :: "hgtMap \<Rightarrow> int \<Rightarrow> int \<Rightarrow> real \<Rightarrow> error + hgtMap" where
  "setWater m x y waterLevel =
     (if x > maxX m \<or> y > maxY m \<or> x < 0 \<or> y < 0 then data_write m x y waterLevel
      else data_write m x y waterLevel)"

definition getAllData :: "hgtMap \<Rightarrow> (int \<times> real) list list" where
  "getAllData m = data m"

subsection \<open>weight\<close>

definition weight :: "real \<Rightarrow> error + real" where
  "weight delta = bind_err (py_pow 2.71828 (- 1 * delta / 3)) (\<lambda>p. Inr (1.0 / (1 + p)))"

subsection \<open>The delta grid of tick\<close>

text \<open>
  \<^verbatim>\<open>deltas = [[0] * (maxX + 1)] * (maxY + 1)\<close> builds ONE row object and an outer list
  that holds the same reference \<open>maxY + 1\<close> times. The claims depend on that sharing, so the
  delta grid is an outer list of row addresses together with a store of row objects.
\<close>

record deltas =
  rows :: "nat list"
  heap :: "nat \<Rightarrow> real list"

definition new_deltas :: "hgtMap \<Rightarrow> deltas" where
  "new_deltas m =
     \<lparr>rows = replicate (nat (maxY m + 1)) 0,
      heap = (\<lambda>a. [])(0 := replicate (nat (maxX m + 1)) 0)\<rparr>"

text \<open>\<^verbatim>\<open>deltas[j][i] = v\<close> and \<^verbatim>\<open>deltas[y][x]\<close>\<close>

definition delta_store :: "deltas \<Rightarrow> int \<Rightarrow> int \<Rightarrow> real \<Rightarrow> error + deltas" where
  "delta_store d j i v =
     bind_err (py_index (rows d) j) (\<lambda>a.
     bind_err (py_store (heap d a) i v) (\<lambda>row'.
       Inr (d\<lparr>heap := (heap d)(a := row')\<rparr>)))"

definition delta_read :: "deltas \<Rightarrow> int \<Rightarrow> int \<Rightarrow> error + real" where
  "delta_read d y x = bind_err (py_index (rows d) y) (\<lambda>a. py_index (heap d a) x)"

subsection \<open>tick\<close>

text \<open>The index pairs of the nested loops, in the order the loops visit them.\<close>

definition nbhd :: "int \<Rightarrow> int \<Rightarrow> (int \<times> int) list" where
  "nbhd x y = concat (map (\<lambda>i. map (\<lambda>j. (i, j)) (py_range (y - 1) (y + 2))) (py_range (x - 1) (x + 2)))"

definition cells :: "hgtMap \<Rightarrow> (int \<times> int) list" where
  "cells m = concat (map (\<lambda>x. map (\<lambda>y. (x, y)) (py_range 0 (maxY m + 1))) (py_range 0 (maxX m + 1)))"

text \<open>\<^verbatim>\<open>weightSum += weight(floodMap.getHeight(i, j) - midHeight)\<close> over the neighbourhood.\<close>

fun weightSum_loop :: "hgtMap \<Rightarrow> int \<Rightarrow> real \<Rightarrow> (int \<times> int) list \<Rightarrow> error + real" where
  "weightSum_loop m midHeight weightSum [] = Inr weightSum"
| "weightSum_loop m midHeight weightSum ((i, j) # ps) =
     bind_err (getHeight m i j) (\<lambda>h.
     bind_err (weight (real_of_int (h - midHeight))) (\<lambda>w.
       weightSum_loop m midHeight (weightSum + w) ps))"

text \<open>
  The body of the second pair of loops. The centre's assignment is unprotected; a
  neighbour's assignment sits in \<^verbatim>\<open>try: ... except: pass\<close>, which swallows every error.
\<close>

definition spread_step :: "int \<Rightarrow> int \<Rightarrow> real \<Rightarrow> real \<Rightarrow> deltas \<Rightarrow> int \<times> int \<Rightarrow> error + deltas" where
  "spread_step x y waterToSpread weightSum d p =
     (case p of (i, j) \<Rightarrow>
        if x = i \<and> y = j then
          bind_err (weight 0) (\<lambda>w0.
          bind_err (py_div (waterToSpread * w0) weightSum) (\<lambda>q.
            delta_store d j i (q - waterToSpread)))
        else
          (case bind_err (weight 0) (\<lambda>w0.
                bind_err (py_div (waterToSpread * w0) weightSum) (\<lambda>q.
                  delta_store d j i q)) of
             Inl e \<Rightarrow> Inr d
           | Inr d' \<Rightarrow> Inr d'))"

fun spread_loop :: "int \<Rightarrow> int \<Rightarrow> real \<Rightarrow> real \<Rightarrow> deltas \<Rightarrow> (int \<times> int) list \<Rightarrow> error + deltas" where
  "spread_loop x y waterToSpread weightSum d [] = Inr d"
| "spread_loop x y waterToSpread weightSum d (p # ps) =
     bind_err (spread_step x y waterToSpread weightSum d p) (\<lambda>d'.
       spread_loop x y waterToSpread weightSum d' ps)"

text \<open>The body of the first pair of loops, for the cell \<open>(x, y)\<close>.\<close>

definition tick_cell :: "hgtMap \<Rightarrow> int \<Rightarrow> int \<Rightarrow> deltas \<Rightarrow> error + deltas" where
  "tick_cell m x y d =
     bind_err (getWater m x y) (\<lambda>w.
       if w < minFloodHeight m then Inr d
       else
         bind_err (getWater m x y) (\<lambda>waterToSpread.
         bind_err (getHeight m x y) (\<lambda>midHeight.
         bind_err (weightSum_loop m midHeight 0 (nbhd x y)) (\<lambda>weightSum.
           spread_loop x y waterToSpread weightSum d (nbhd x y)))))"

fun deltas_loop :: "hgtMap \<Rightarrow> deltas \<Rightarrow> (int \<times> int) list \<Rightarrow> error + deltas" where
  "deltas_loop m d [] = Inr d"
| "deltas_loop m d ((x, y) # cs) = bind_err (tick_cell m x y d) (\<lambda>d'. deltas_loop m d' cs)"

text \<open>\<^verbatim>\<open>floodMap.setWater(x, y, floodMap.getWater(x, y) + deltas[y][x])\<close> for every cell.\<close>

fun apply_loop :: "hgtMap \<Rightarrow> deltas \<Rightarrow> (int \<times> int) list \<Rightarrow> error + hgtMap" where
  "apply_loop m d [] = Inr m"
| "apply_loop m d ((x, y) # cs) =
     bind_err (getWater m x y) (\<lambda>w.
     bind_err (delta_read d y x) (\<lambda>dl.
     bind_err (setWater m x y (w + dl)) (\<lambda>m'.
       apply_loop m' d cs)))"

definition tick :: "hgtMap \<Rightarrow> error + hgtMap" where
  "tick floodMap =
     bind_err (deltas_loop floodMap (new_deltas floodMap) (cells floodMap)) (\<lambda>d.
       apply_loop floodMap d (cells floodMap))"

subsection \<open>Vocabulary of the properties\<close>

text \<open>A coordinate of the grid, and a grid whose rows all have \<open>maxX + 1\<close> cells.\<close>

definition in_grid :: "hgtMap \<Rightarrow> int \<Rightarrow> int \<Rightarrow> bool" where
  "in_grid m x y \<longleftrightarrow> 0 \<le> x \<and> x \<le> maxX m \<and> 0 \<le> y \<and> y \<le> maxY m"

definition rectangular :: "hgtMap \<Rightarrow> bool" where
  "rectangular m \<longleftrightarrow>
     0 \<le> maxY m \<and> - 1 \<le> maxX m \<and> int (length (data m)) = maxY m + 1 \<and>
     list_all (\<lambda>row. int (length row) = maxX m + 1) (data m)"

definition height_at :: "hgtMap \<Rightarrow> int \<Rightarrow> int \<Rightarrow> int" where
  "height_at m x y = fst (data m ! nat y ! nat x)"

definition water_at :: "hgtMap \<Rightarrow> int \<Rightarrow> int \<Rightarrow> real" where
  "water_at m x y = snd (data m ! nat y ! nat x)"

definition total_water :: "hgtMap \<Rightarrow> real" where
  "total_water m = sum_list (map snd (concat (data m)))"



text \<open>The value \<^verbatim>\<open>weight\<close> returns, when it returns.\<close>

definition weight_of :: "real \<Rightarrow> real" where
  "weight_of delta = 1 / (1 + 2.71828 powr (- delta / 3))"



subsection \<open>Example grids\<close>

text \<open>3x3, flat, 100 units of water on the centre cell; the threshold is a parameter.\<close>

definition flat3 :: "real \<Rightarrow> hgtMap" where
  "flat3 mfh =
     \<lparr>data = [[(0, 0), (0, 0), (0, 0)], [(0, 0), (0, 100), (0, 0)], [(0, 0), (0, 0), (0, 0)]],
      maxX = 2, maxY = 2, minFloodHeight = mfh\<rparr>"

text \<open>3x3, the corner cell \<open>(0, 0)\<close> three units higher, 100 units of water on the centre.\<close>

definition bump3 :: hgtMap where
  "bump3 =
     \<lparr>data = [[(3, 0), (0, 0), (0, 0)], [(0, 0), (0, 100), (0, 0)], [(0, 0), (0, 0), (0, 0)]],
      maxX = 2, maxY = 2, minFloodHeight = 1\<rparr>"

text \<open>One column, two rows, 100 units of water on the cell \<open>(0, 1)\<close>.\<close>

definition column2 :: hgtMap where
  "column2 = \<lparr>data = [[(0, 0)], [(0, 100)]], maxX = 0, maxY = 1, minFloodHeight = 0\<rparr>"

text \<open>One row, two columns, dry.\<close>

definition row2 :: hgtMap where
  "row2 = \<lparr>data = [[(0, 0), (0, 0)]], maxX = 1, maxY = 0, minFloodHeight = 0\<rparr>"


text \<open>One row, two columns, dry, the cell \<open>(0, 0)\<close> 32768 below the cell \<open>(1, 0)\<close>.\<close>

definition cliff2 :: hgtMap where
  "cliff2 = \<lparr>data = [[(- 32768, 0), (0, 0)]], maxX = 1, maxY = 0, minFloodHeight = 0\<rparr>"

section \<open>Properties\<close>

subsection \<open>Rounding to a double\<close>

lemma round_half_even_close: "\<bar>real_of_int (round_half_even z) - z\<bar> \<le> 1 / 2"
  unfolding round_half_even_def Let_def by (auto; linarith)

lemma rnd_0: "rnd 0 = 0"
  by (simp add: rnd_def)

lemma rnd_ulp:
  assumes "x \<noteq> 0"
  shows "\<bar>rnd x - x\<bar> \<le> 2 powr real_of_int (ulp_exponent x) / 2"
proof -
  define u where "u = 2 powr real_of_int (ulp_exponent x)"
  have u: "0 < u" by (simp add: u_def)
  have "rnd x - x = u * (real_of_int (round_half_even (x / u)) - x / u)"
    using u assms by (simp add: rnd_def u_def field_simps)
  then have "\<bar>rnd x - x\<bar> = u * \<bar>real_of_int (round_half_even (x / u)) - x / u\<bar>"
    using u by (simp add: abs_mult)
  also have "\<dots> \<le> u * (1 / 2)"
    using u round_half_even_close[of "x / u"] by (intro mult_left_mono) auto
  finally show ?thesis by (simp add: u_def)
qed

lemma ulp_bound:
  assumes "x \<noteq> 0"
  shows "2 powr real_of_int (ulp_exponent x) \<le> \<bar>x\<bar> / 2 ^ 52 + 1 / 2 ^ 1074"
proof (cases "\<lfloor>log 2 \<bar>x\<bar>\<rfloor> \<le> - 1022")
  case True
  then have "ulp_exponent x = - 1074"
    by (simp add: ulp_exponent_def max_def)
  then have "2 powr real_of_int (ulp_exponent x) = 1 / 2 ^ 1074"
    by (simp add: powr_minus_divide)
  then show ?thesis by simp
next
  case False
  then have e: "ulp_exponent x = \<lfloor>log 2 \<bar>x\<bar>\<rfloor> - 52"
    by (auto simp: ulp_exponent_def max_def)
  have "2 powr real_of_int \<lfloor>log 2 \<bar>x\<bar>\<rfloor> \<le> 2 powr log 2 \<bar>x\<bar>"
    by (intro powr_mono) auto
  also have "\<dots> = \<bar>x\<bar>" using assms by simp
  finally have "2 powr real_of_int (ulp_exponent x) \<le> \<bar>x\<bar> / 2 ^ 52"
    unfolding e by (simp add: powr_diff)
  moreover have "(0::real) \<le> 1 / 2 ^ 1074" by simp
  ultimately show ?thesis by linarith
qed

lemma rnd_error: "\<bar>rnd x - x\<bar> \<le> \<bar>x\<bar> / 2 ^ 53 + 1 / 2 ^ 1075"
proof (cases "x = 0")
  case True
  then show ?thesis by (simp add: rnd_0)
next
  case False
  have h: "a \<le> u / 2 \<Longrightarrow> u \<le> b \<Longrightarrow> a \<le> b / 2" for a u b :: real
    by simp
  have "\<bar>rnd x - x\<bar> \<le> (\<bar>x\<bar> / 2 ^ 52 + 1 / 2 ^ 1074) / 2"
    using rnd_ulp[OF False] ulp_bound[OF False] by (rule h)
  also have "\<dots> = \<bar>x\<bar> / 2 ^ 53 + 1 / 2 ^ 1075" by (simp add: add_divide_distrib)
  finally show ?thesis .
qed

lemma rnd_error_bound:
  assumes "\<bar>x\<bar> \<le> B"
  shows "\<bar>rnd x - x\<bar> \<le> B / 2 ^ 53 + 1 / 2 ^ 60"
proof -
  have 1: "\<bar>x\<bar> / 2 ^ 53 \<le> B / 2 ^ 53" using assms by (simp add: divide_right_mono)
  have "(2::real) ^ 60 \<le> 2 ^ 1075" by (rule power_increasing) simp_all
  then have 2: "(1::real) / 2 ^ 1075 \<le> 1 / 2 ^ 60" by (simp add: frac_le)
  have h: "a \<le> p + q \<Longrightarrow> p \<le> p' \<Longrightarrow> q \<le> q' \<Longrightarrow> a \<le> p' + q'" for a p q p' q' :: real
    by simp
  show ?thesis using rnd_error[of x] 1 2 by (rule h)
qed

lemma rnd_eval:
  assumes "2 powr real_of_int e \<le> \<bar>x\<bar>" "\<bar>x\<bar> < 2 powr real_of_int (e + 1)" "- 1022 \<le> e"
  shows "rnd x = real_of_int (round_half_even (x / 2 powr real_of_int (e - 52))) *
                 2 powr real_of_int (e - 52)"
proof -
  have x: "x \<noteq> 0" using assms(1) by (auto simp: not_le[symmetric] intro: order.strict_implies_order)
  have "\<lfloor>log 2 \<bar>x\<bar>\<rfloor> = e"
    using assms(1,2) x by (intro floor_log_eq_powr_iff[THEN iffD2]) auto
  then have "ulp_exponent x = e - 52" using assms(3) by (simp add: ulp_exponent_def)
  then show ?thesis using x by (simp add: rnd_def)
qed

lemma rnd_eval_neg:
  assumes "1 / 2 ^ n \<le> \<bar>x\<bar>" "\<bar>x\<bar> < 2 / 2 ^ n" "n \<le> 1022"
  shows "rnd x = real_of_int (round_half_even (x * 2 ^ (n + 52))) / 2 ^ (n + 52)"
proof -
  have 1: "2 powr real_of_int (- int n) = 1 / 2 ^ n"
    by (simp add: powr_minus_divide powr_realpow)
  have 2: "2 powr real_of_int (- int n + 1) = 2 / 2 ^ n"
    by (simp add: powr_diff powr_realpow)
  have "real_of_int (- int n - 52) = - real (n + 52)" by simp
  then have 3: "2 powr real_of_int (- int n - 52) = 1 / 2 ^ (n + 52)"
    using powr_realpow[of 2 "n + 52"] by (simp only: powr_minus_divide)
  show ?thesis
    using rnd_eval[of "- int n" x] assms unfolding 1 2 3 by simp
qed

lemma rnd_eval_pos:
  assumes "2 ^ n \<le> \<bar>x\<bar>" "\<bar>x\<bar> < 2 * 2 ^ n" "n \<le> 52"
  shows "rnd x = real_of_int (round_half_even (x * 2 ^ (52 - n))) / 2 ^ (52 - n)"
proof -
  have 1: "2 powr real_of_int (int n) = 2 ^ n"
    by (simp add: powr_realpow)
  have 2: "2 powr real_of_int (int n + 1) = 2 * 2 ^ n"
    by (simp add: powr_add powr_realpow)
  have "real_of_int (int n - 52) = - real (52 - n)" using assms(3) by simp
  then have 3: "2 powr real_of_int (int n - 52) = 1 / 2 ^ (52 - n)"
    using powr_realpow[of 2 "52 - n"] by (simp only: powr_minus_divide)
  show ?thesis
    using rnd_eval[of "int n" x] assms(1,2) unfolding 1 2 3 by simp
qed

lemma DBL_MAX_big: "2 ^ 20 \<le> DBL_MAX"
proof -
  have "(2::real) ^ 20 \<le> 2 ^ 971" by (rule power_increasing) simp_all
  moreover have "(1::real) \<le> 2 ^ 53 - 1" by simp
  ultimately have "1 * (2::real) ^ 20 \<le> (2 ^ 53 - 1) * 2 ^ 971"
    by (intro mult_mono) simp_all
  then show ?thesis by (simp add: DBL_MAX_def)
qed

lemma DBL_MAX_lt: "DBL_MAX < 2 ^ 1024"
proof -
  have "DBL_MAX = 2 ^ 53 * 2 ^ 971 - 2 ^ 971" by (simp add: DBL_MAX_def algebra_simps)
  also have "\<dots> = 2 ^ 1024 - 2 ^ 971" by (simp add: power_add[symmetric])
  finally show ?thesis by simp
qed

lemma py_int_small:
  assumes "\<bar>v\<bar> \<le> 2 ^ 20"
  shows "py_int v = Inr (if 0 \<le> v then \<lfloor>v\<rfloor> else \<lceil>v\<rceil>)"
proof -
  have "\<not> DBL_MAX < \<bar>v\<bar>" using assms DBL_MAX_big by linarith
  then show ?thesis by (simp add: py_int_def)
qed

lemma py_float_small:
  assumes "rnd (real_of_int n) = v" "\<bar>v\<bar> \<le> 2 ^ 20"
  shows "py_float n = Inr v"
proof -
  have "\<not> DBL_MAX < \<bar>v\<bar>" using assms(2) DBL_MAX_big by linarith
  then show ?thesis using assms(1) by (simp add: py_float_def)
qed

subsection \<open>The weight function\<close>

lemma weight_cases:
  "weight d = (if DBL_MAX < 2.71828 powr (- d / 3) then Inl OverflowError else Inr (weight_of d))"
  by (simp add: weight_def py_pow_def bind_err_def weight_of_def)

lemma base_pow_710: "(2::real) ^ 1024 \<le> 2.71828 ^ 710"
proof -
  have 1: "(2::real) ^ 75 \<le> 2.71828 ^ 52" by (simp add: power_divide)
  have 2: "(2::real) ^ 49 \<le> 2.71828 ^ 34" by (simp add: power_divide)
  have "((2::real) ^ 75) ^ 13 \<le> (2.71828 ^ 52) ^ 13"
    using 1 by (intro power_mono) simp_all
  then have "((2::real) ^ 75) ^ 13 * 2 ^ 49 \<le> (2.71828 ^ 52) ^ 13 * 2.71828 ^ 34"
    using 2 by (intro mult_mono) simp_all
  then show ?thesis by (simp only: power_mult[symmetric] power_add[symmetric]) simp
qed

lemma weight_overflow:
  assumes "d \<le> - 2130"
  shows "weight d = Inl OverflowError"
proof -
  have "(2.71828::real) powr 710 \<le> 2.71828 powr (- d / 3)"
    using assms by (intro powr_mono) simp_all
  moreover have "(2.71828::real) powr 710 = 2.71828 ^ 710"
    using powr_realpow[of "2.71828::real" 710] by simp
  ultimately have "2 ^ 1024 \<le> (2.71828::real) powr (- d / 3)"
    using base_pow_710 by linarith
  then have "DBL_MAX < 2.71828 powr (- d / 3)" using DBL_MAX_lt by linarith
  then show ?thesis by (simp add: weight_cases)
qed


lemma pow_powr:
  assumes "0 < b" "c = real n" "0 < n"
  shows "(b ^ n) powr (x / c) = b powr x"
proof -
  have "(b ^ n) powr (x / c) = (b powr real n) powr (x / real n)"
    using assms by (simp only: powr_realpow)
  also have "\<dots> = b powr (real n * (x / real n))" by (rule powr_powr)
  also have "real n * (x / real n) = x" using assms(3) by simp
  finally show ?thesis .
qed

lemma two_powr_frac: "(2::real) powr (199 / 210) \<le> 39 / 20"
proof -
  have "(2::real) ^ 199 \<le> (39 / 20) ^ 210" by (simp add: power_divide)
  then have "((2::real) ^ 199) powr (1 / 210) \<le> ((39 / 20) ^ 210) powr (1 / 210)"
    by (rule powr_mono2[rotated 2]) simp_all
  moreover have "((2::real) ^ 199) powr (199 / 210 / 199) = 2 powr (199 / 210)"
    by (rule pow_powr) simp_all
  moreover have "(((39::real) / 20) ^ 210) powr (1 / 210) = (39 / 20) powr 1"
    by (rule pow_powr) simp_all
  moreover have "(199::real) / 210 / 199 = 1 / 210" by simp
  ultimately show ?thesis by (simp only: powr_one_gt_zero_iff) simp
qed

lemma base_powr_no_overflow:
  assumes "x \<le> 2129 / 3"
  shows "(2.71828::real) powr x \<le> DBL_MAX"
proof (cases "0 \<le> x")
  case False
  then have "(2.71828::real) powr x \<le> 2.71828 powr 0"
    by (intro powr_mono) simp_all
  moreover have "(1::real) \<le> 2 ^ 20" by simp
  ultimately show ?thesis using DBL_MAX_big by simp
next
  case True
  have b: "(2.71828::real) ^ 70 \<le> 2 ^ 101" by (simp add: power_divide)
  have "((2.71828::real) ^ 70) powr (x / 70) = 2.71828 powr x"
    by (rule pow_powr) simp_all
  then have "(2.71828::real) powr x = (2.71828 ^ 70) powr (x / 70)" by (rule sym)
  also have "\<dots> \<le> (2 ^ 101) powr (x / 70)"
    using b by (rule powr_mono2[rotated 2]) (use True in simp_all)
  also have "(x / 70) = (101 * x / 70) / 101" by simp
  also have "((2::real) ^ 101) powr (101 * x / 70 / 101) = 2 powr (101 * x / 70)"
    by (rule pow_powr) simp_all
  also have "\<dots> \<le> 2 powr (1023 + 199 / 210)"
    using assms by (intro powr_mono) simp_all
  also have "\<dots> = 2 powr 1023 * 2 powr (199 / 210)"
    by (rule powr_add)
  also have "(2::real) powr 1023 = 2 ^ 1023"
    using powr_realpow[of "2::real" 1023] by (simp only: of_nat_numeral)
  also have "(2::real) ^ 1023 * 2 powr (199 / 210) \<le> 2 ^ 1023 * (39 / 20)"
    using two_powr_frac by (intro mult_left_mono) simp_all
  also have "\<dots> = 2 ^ 971 * (2 ^ 52 * (39 / 20))"
  proof -
    have "(2::real) ^ 1023 = 2 ^ 971 * 2 ^ 52"
      by (simp add: power_add[symmetric])
    then show ?thesis by (simp only: mult.assoc)
  qed
  also have "\<dots> \<le> 2 ^ 971 * (2 ^ 53 - 1)"
    by (intro mult_left_mono) simp_all
  finally show ?thesis by (simp only: DBL_MAX_def mult.commute)
qed

lemma weight_defined:
  assumes "- 2129 \<le> d"
  shows "weight d = Inr (weight_of d)"
proof -
  have "(2.71828::real) powr (- d / 3) \<le> DBL_MAX"
    using assms by (intro base_powr_no_overflow) simp
  then show ?thesis by (simp add: weight_cases)
qed

lemma weight_of_0: "weight_of 0 = 1 / 2"
  by (simp add: weight_of_def)

lemma weight_of_pos: "0 < weight_of d"
  unfolding weight_of_def by (simp add: add_pos_nonneg)


lemma weight_of_strict_mono: "a < b \<Longrightarrow> weight_of a < weight_of b"
  unfolding weight_of_def by (simp add: frac_less2 add_pos_nonneg)

lemma weight_of_nonneg: "0 \<le> weight_of d"
  using weight_of_pos[of d] by simp

lemma weight_of_ne0: "weight_of d \<noteq> 0"
  using weight_of_pos[of d] by simp




subsection \<open>Coordinate mapping\<close>

text \<open>The index computed from an offset \<open>s\<close> between -1 and 0.\<close>

lemma index_close:
  assumes "- 1 \<le> s" "s \<le> 0"
  defines "b \<equiv> fl_mul (- 1201) (rnd s)"
  shows "\<exists>k. py_int b = Inr k \<and> - 1 < k \<and> k \<le> 1201 \<and>
     (let c = (if k > 1200 then 1200 else k) in
        \<bar>real_of_int (if c < 0 then 0 else c) - (- 1201 * s)\<bar> \<le> 1 + 1 / 2 ^ 40)"
proof -
  define a where "a = rnd s"
  define t where "t = - 1201 * s"
  have t: "0 \<le> t" "t \<le> 1201" using assms(1,2) by (simp_all add: t_def)
  have s1: "\<bar>s\<bar> \<le> 1" using assms(1,2) by simp
  have "\<bar>a - s\<bar> \<le> 1 / 2 ^ 53 + 1 / 2 ^ 60"
    unfolding a_def using rnd_error_bound[OF s1] .
  then have as: "\<bar>a - s\<bar> \<le> 2 / 2 ^ 53" by simp
  have a2: "\<bar>- 1201 * a\<bar> \<le> 2402"
    using as assms(1,2) unfolding abs_le_iff by simp
  have "\<bar>b - (- 1201 * a)\<bar> \<le> 2402 / 2 ^ 53 + 1 / 2 ^ 60"
    unfolding b_def fl_mul_def a_def[symmetric] using rnd_error_bound[OF a2] .
  moreover have "\<bar>- 1201 * a - t\<bar> \<le> 2402 / 2 ^ 53"
    using as unfolding t_def abs_le_iff by simp
  ultimately have bt: "\<bar>b - t\<bar> \<le> 1 / 2 ^ 40"
    unfolding abs_le_iff by simp
  have "\<bar>b\<bar> \<le> 2 ^ 20" using bt t unfolding abs_le_iff by simp
  then have bd: "\<bar>b\<bar> \<le> DBL_MAX" using DBL_MAX_big by (rule order_trans)
  define k where "k = (if 0 \<le> b then \<lfloor>b\<rfloor> else \<lceil>b\<rceil>)"
  have pk: "py_int b = Inr k" using bd by (simp add: py_int_def k_def)
  have k1: "b - 1 < real_of_int k" "real_of_int k < b + 1"
    "0 \<le> b \<Longrightarrow> real_of_int k \<le> b" "b < 0 \<Longrightarrow> b \<le> real_of_int k"
    unfolding k_def by (simp_all; linarith)+
  have bt': "b - t \<le> 1 / 2 ^ 40" "t - b \<le> 1 / 2 ^ 40"
    using bt unfolding abs_le_iff by simp_all
  have "(1::real) / 2 ^ 40 < 1" by simp
  then have bt1: "b - t < 1" "t - b < 1" using bt' by linarith+
  have k0: "0 \<le> k"
  proof (cases "0 \<le> b")
    case True
    then show ?thesis by (simp add: k_def)
  next
    case False
    then have "- 1 < b" "b \<le> 0" using bt1 t by linarith+
    then have "\<lceil>b\<rceil> = 0" by (simp add: ceiling_eq_iff)
    then show ?thesis using False by (simp add: k_def)
  qed
  have "real_of_int k < 1202"
  proof (cases "0 \<le> b")
    case True
    then show ?thesis using k1(3) bt1 t by linarith
  next
    case False
    then show ?thesis using k1(2) by linarith
  qed
  then have "k < 1202" by linarith
  with k0 have kr: "- 1 < k" "k \<le> 1201" by linarith+
  have "\<bar>real_of_int (if (if k > 1200 then 1200 else k) < 0 then 0 else (if k > 1200 then 1200 else k)) - t\<bar>
     \<le> 1 + 1 / 2 ^ 40"
  proof (cases "k > 1200")
    case True
    then have k: "k = 1201" using kr by simp
    then have "0 \<le> b" using k1(2) by simp
    then have "1201 \<le> b" using k1(3) k by simp
    then have "1201 - 1 / 2 ^ 40 \<le> t" using bt'(1) by simp
    then show ?thesis using True t unfolding abs_le_iff by simp
  next
    case False
    then have kk: "0 \<le> k" "k \<le> 1200" using kr by simp_all
    have "real_of_int k - t \<le> 1 / 2 ^ 40"
    proof (cases "0 \<le> b")
      case True
      then show ?thesis using k1(3) bt'(1) by simp
    next
      case False
      then have "real_of_int k < 1" using k1(2) by simp
      then have "k = 0" using kk by simp
      then show ?thesis using t by simp
    qed
    moreover have "t - real_of_int k \<le> 1 + 1 / 2 ^ 40"
      using k1(1) bt'(2) by simp
    ultimately show ?thesis using kk unfolding abs_le_iff by simp
  qed
  then show ?thesis using pk kr unfolding t_def Let_def by blast
qed

text \<open>The offset computed back from an index between 0 and 1200.\<close>

lemma offset_close:
  assumes "0 \<le> k" "k \<le> 1200"
  shows "\<exists>f. py_float k = Inr f \<and>
     \<bar>fl_div (fl_mul f 1.0) 1201 - real_of_int k / 1201\<bar> \<le> 6 / 2 ^ 53 \<and>
     \<bar>fl_div (fl_mul f 1.0) 1201\<bar> \<le> 2"
proof -
  define f where "f = rnd (real_of_int k)"
  define g where "g = fl_mul f 1.0"
  define q where "q = fl_div g 1201"
  have k: "\<bar>real_of_int k\<bar> \<le> 1200" using assms by simp
  have "\<bar>f - real_of_int k\<bar> \<le> 1200 / 2 ^ 53 + 1 / 2 ^ 60"
    using rnd_error_bound[OF k] by (simp add: f_def)
  then have fk: "\<bar>f - real_of_int k\<bar> \<le> 1201 / 2 ^ 53" by simp
  have f2: "\<bar>f * 1.0\<bar> \<le> 1201" using fk k unfolding abs_le_iff by simp
  have "\<bar>f\<bar> \<le> 2 ^ 20" using f2 unfolding abs_le_iff by simp
  then have "\<bar>f\<bar> \<le> DBL_MAX" using DBL_MAX_big by (rule order_trans)
  then have pf: "py_float k = Inr f" by (simp add: py_float_def f_def)
  have "\<bar>g - f * 1.0\<bar> \<le> 1201 / 2 ^ 53 + 1 / 2 ^ 60"
    using rnd_error_bound[OF f2] by (simp add: g_def fl_mul_def)
  then have gf: "\<bar>g - f\<bar> \<le> 1202 / 2 ^ 53" by simp
  have gk: "\<bar>g - real_of_int k\<bar> \<le> 2403 / 2 ^ 53"
    using gf fk unfolding abs_le_iff by simp
  have g2: "\<bar>g / 1201\<bar> \<le> 2" using gk k unfolding abs_le_iff by simp
  have "\<bar>q - g / 1201\<bar> \<le> 2 / 2 ^ 53 + 1 / 2 ^ 60"
    using rnd_error_bound[OF g2] by (simp add: q_def fl_div_def)
  then have qg: "\<bar>q - g / 1201\<bar> \<le> 3 / 2 ^ 53" by simp
  have "\<bar>g / 1201 - real_of_int k / 1201\<bar> \<le> 3 / 2 ^ 53"
    using gk unfolding abs_le_iff by simp
  then have 1: "\<bar>q - real_of_int k / 1201\<bar> \<le> 6 / 2 ^ 53"
    using qg unfolding abs_le_iff by simp
  have "\<bar>real_of_int k / 1201\<bar> \<le> 1" using assms by simp
  then have 2: "\<bar>q\<bar> \<le> 2" using 1 unfolding abs_le_iff by simp
  show ?thesis using pf 1 2 unfolding q_def g_def by blast
qed

text \<open>
  C10 (amended). For every point of the tile (latitude 40 to 41, longitude -74 to -73),
  mapping it to an index and back returns a point within \<open>1 / 1201 + 2 ^ - 46\<close> degree of
  it in each component: one grid step plus the rounding of the last operation.
\<close>

theorem round_trip:
  assumes "40 \<le> lat" "lat \<le> 41" "- 74 \<le> long" "long \<le> - 73"
  shows "\<exists>x y lat' long'.
           latLongToPointApprox lat long = Inr (x, y) \<and>
           pointToLatLong x y = Inr (lat', long') \<and>
           \<bar>lat' - lat\<bar> \<le> 1 / 1201 + 1 / 2 ^ 46 \<and> \<bar>long' - long\<bar> \<le> 1 / 1201 + 1 / 2 ^ 46"
proof -
  define s where "s = lat - 41"
  define r where "r = long + 73"
  have s: "- 1 \<le> s" "s \<le> 0" and r: "- 1 \<le> r" "r \<le> 0"
    using assms by (simp_all add: s_def r_def)
  obtain ky where ky: "py_int (fl_mul (- 1201) (fl_sub lat 41)) = Inr ky"
    and yc0: "let c = (if ky > 1200 then 1200 else ky) in
        \<bar>real_of_int (if c < 0 then 0 else c) - (- 1201 * s)\<bar> \<le> 1 + 1 / 2 ^ 40"
    using index_close[OF s] unfolding fl_sub_def s_def by blast
  obtain kx where kx: "py_int (fl_mul (- 1201) (fl_add long 73)) = Inr kx"
    and xc0: "let c = (if kx > 1200 then 1200 else kx) in
        \<bar>real_of_int (if c < 0 then 0 else c) - (- 1201 * r)\<bar> \<le> 1 + 1 / 2 ^ 40"
    using index_close[OF r] unfolding fl_add_def r_def by blast
  define y where "y = (let c = (if ky > 1200 then 1200 else ky) in if c < 0 then 0 else c)"
  define x where "x = (let c = (if kx > 1200 then 1200 else kx) in if c < 0 then 0 else c)"
  have idx: "latLongToPointApprox lat long = Inr (x, y)"
    by (simp add: latLongToPointApprox_def ky kx bind_err_def x_def y_def Let_def)
  have yr: "0 \<le> y" "y \<le> 1200" and xr: "0 \<le> x" "x \<le> 1200"
    by (auto simp: x_def y_def Let_def)
  have yc: "\<bar>real_of_int y - (- 1201 * s)\<bar> \<le> 1 + 1 / 2 ^ 40"
    using yc0 by (simp add: y_def Let_def)
  have xc: "\<bar>real_of_int x - (- 1201 * r)\<bar> \<le> 1 + 1 / 2 ^ 40"
    using xc0 by (simp add: x_def Let_def)
  obtain fy where fy: "py_float y = Inr fy"
    and dy: "\<bar>fl_div (fl_mul fy 1.0) 1201 - real_of_int y / 1201\<bar> \<le> 6 / 2 ^ 53"
    and dy2: "\<bar>fl_div (fl_mul fy 1.0) 1201\<bar> \<le> 2"
    using offset_close[OF yr] by blast
  obtain fx where fx: "py_float x = Inr fx"
    and dx: "\<bar>fl_div (fl_mul fx 1.0) 1201 - real_of_int x / 1201\<bar> \<le> 6 / 2 ^ 53"
    and dx2: "\<bar>fl_div (fl_mul fx 1.0) 1201\<bar> \<le> 2"
    using offset_close[OF xr] by blast
  define deltaY where "deltaY = fl_div (fl_mul fy 1.0) 1201"
  define deltaX where "deltaX = fl_div (fl_mul fx 1.0) 1201"
  define lat' where "lat' = fl_sub 41 deltaY"
  define long' where "long' = - fl_add 73 deltaX"
  have pt: "pointToLatLong x y = Inr (lat', long')"
    by (simp add: pointToLatLong_def fx fy bind_err_def Let_def lat'_def long'_def deltaX_def deltaY_def)
  have b1: "\<bar>41 - deltaY\<bar> \<le> 43" using dy2 unfolding deltaY_def abs_le_iff by simp
  have "\<bar>lat' - (41 - deltaY)\<bar> \<le> 43 / 2 ^ 53 + 1 / 2 ^ 60"
    using rnd_error_bound[OF b1] by (simp add: lat'_def fl_sub_def)
  then have e1: "\<bar>lat' - (41 - deltaY)\<bar> \<le> 44 / 2 ^ 53" by simp
  have b2: "\<bar>73 + deltaX\<bar> \<le> 75" using dx2 unfolding deltaX_def abs_le_iff by simp
  have "\<bar>fl_add 73 deltaX - (73 + deltaX)\<bar> \<le> 75 / 2 ^ 53 + 1 / 2 ^ 60"
    using rnd_error_bound[OF b2] by (simp add: fl_add_def)
  then have e2: "\<bar>- long' - (73 + deltaX)\<bar> \<le> 76 / 2 ^ 53" by (simp add: long'_def)
  have lat: "lat = 41 + s" and long: "long = r - 73" by (simp_all add: s_def r_def)
  have g1: "\<bar>real_of_int y / 1201 + s\<bar> \<le> 1 / 1201 + 1 / 2 ^ 50"
    using yc unfolding abs_le_iff by simp
  have g2: "\<bar>real_of_int x / 1201 + r\<bar> \<le> 1 / 1201 + 1 / 2 ^ 50"
    using xc unfolding abs_le_iff by simp
  have 1: "\<bar>lat' - lat\<bar> \<le> 1 / 1201 + 1 / 2 ^ 46"
    using e1 dy g1 unfolding lat deltaY_def[symmetric] abs_le_iff by simp
  have 2: "\<bar>long' - long\<bar> \<le> 1 / 1201 + 1 / 2 ^ 46"
    using e2 dx g2 unfolding long deltaX_def[symmetric] abs_le_iff by simp
  show ?thesis using idx pt 1 2 by blast
qed

theorem round_trip_witness:
  "(40::real) \<le> 40.5 \<and> (40.5::real) \<le> 41 \<and> (- 74::real) \<le> - 73.25 \<and> (- 73.25::real) \<le> - 73 \<and>
   (\<exists>x y lat' long'.
      latLongToPointApprox 40.5 (- 73.25) = Inr (x, y) \<and>
      pointToLatLong x y = Inr (lat', long') \<and>
      \<bar>lat' - 40.5\<bar> \<le> 1 / 1201 + 1 / 2 ^ 46 \<and> \<bar>long' - (- 73.25)\<bar> \<le> 1 / 1201 + 1 / 2 ^ 46)"
  using round_trip[of "40.5" "- 73.25"] by simp

text \<open>
  The claim as stated fails at the double \<open>lat = 90154460496977 / 2 ^ 41\<close> (about
  40.9975), an interior point with index 2: the latitude that comes back is
  \<open>5770002655393835 / 2 ^ 47\<close>, further than \<open>1 / 1201\<close> from \<open>lat\<close>.
\<close>

theorem round_trip_exceeds_step:
  "latLongToPointApprox (90154460496977 / 2 ^ 41) (- 73.5) = Inr (600, 2) \<and>
   pointToLatLong 600 2 = Inr (5770002655393835 / 2 ^ 47, - (5172073401161477 / 2 ^ 46)) \<and>
   (1::real) / 1201 < \<bar>5770002655393835 / 2 ^ 47 - 90154460496977 / 2 ^ 41\<bar>"
proof -
  have a1: "fl_sub (90154460496977 / 2 ^ 41) 41 = - 5492980655 / 2 ^ 41"
    unfolding fl_sub_def
    by (subst rnd_eval_neg[where n = 9]) (simp_all add: round_half_even_def)
  have a2: "fl_mul (- 1201) (- 5492980655 / 2 ^ 41) = 6597069766655 / 2 ^ 41"
    unfolding fl_mul_def
    by (subst rnd_eval_pos[where n = 1]) (simp_all add: round_half_even_def)
  have a3: "py_int (6597069766655 / 2 ^ 41) = Inr 2"
    by (subst py_int_small) simp_all
  have b1: "fl_add (- 73.5) 73 = - 1 / 2"
    unfolding fl_add_def
    by (subst rnd_eval_neg[where n = 1]) (simp_all add: round_half_even_def)
  have b2: "fl_mul (- 1201) (- 1 / 2) = 1201 / 2"
    unfolding fl_mul_def
    by (subst rnd_eval_pos[where n = 9]) (simp_all add: round_half_even_def)
  have b3: "py_int (1201 / 2) = Inr 600"
    by (subst py_int_small) simp_all
  have 1: "latLongToPointApprox (90154460496977 / 2 ^ 41) (- 73.5) = Inr (600, 2)"
    unfolding latLongToPointApprox_def a1 a2 a3 b1 b2 b3 by (simp add: bind_err_def)
  have c1: "rnd 2 = 2"
    by (subst rnd_eval_pos[where n = 1]) (simp_all add: round_half_even_def)
  have c2: "fl_mul 2 1.0 = 2"
    unfolding fl_mul_def using c1 by simp
  have c3: "fl_div 2 1201 = 7679743577730871 / 2 ^ 62"
    unfolding fl_div_def
    by (subst rnd_eval_neg[where n = 10]) (simp_all add: round_half_even_def)
  have c4: "fl_sub 41 (7679743577730871 / 2 ^ 62) = 5770002655393835 / 2 ^ 47"
    unfolding fl_sub_def
    by (subst rnd_eval_pos[where n = 5]) (simp_all add: round_half_even_def)
  have d1: "rnd 600 = 600"
    by (subst rnd_eval_pos[where n = 9]) (simp_all add: round_half_even_def)
  have d2: "fl_mul 600 1.0 = 600"
    unfolding fl_mul_def using d1 by simp
  have d3: "fl_div 600 1201 = 8999699505153364 / 2 ^ 54"
    unfolding fl_div_def
    by (subst rnd_eval_neg[where n = 2]) (simp_all add: round_half_even_def)
  have d4: "fl_add 73 (8999699505153364 / 2 ^ 54) = 5172073401161477 / 2 ^ 46"
    unfolding fl_add_def
    by (subst rnd_eval_pos[where n = 6]) (simp_all add: round_half_even_def)
  have p2: "py_float 2 = Inr 2"
    by (rule py_float_small) (simp_all add: c1)
  have p600: "py_float 600 = Inr 600"
    by (rule py_float_small) (simp_all add: d1)
  have 2: "pointToLatLong 600 2 = Inr (5770002655393835 / 2 ^ 47, - (5172073401161477 / 2 ^ 46))"
    unfolding pointToLatLong_def p2 p600 bind_err_def Let_def sum.case c2 c3 c4 d2 d3 d4 by simp
  have 3: "(1::real) / 1201 < \<bar>5770002655393835 / 2 ^ 47 - 90154460496977 / 2 ^ 41\<bar>"
    by simp
  show ?thesis using 1 2 3 by blast
qed

subsection \<open>Reading the grid\<close>

lemma py_index_ok: "0 \<le> i \<Longrightarrow> i < int (length xs) \<Longrightarrow> py_index xs i = Inr (xs ! nat i)"
  by (simp add: py_index_def)

lemma py_store_ok: "0 \<le> i \<Longrightarrow> i < int (length xs) \<Longrightarrow> py_store xs i v = Inr (xs[nat i := v])"
  by (simp add: py_store_def)

lemma py_store_length: "py_store xs i v = Inr ys \<Longrightarrow> length ys = length xs"
  by (auto simp: py_store_def Let_def split: if_splits)

lemma row_length:
  assumes "rectangular m" "0 \<le> y" "y \<le> maxY m"
  shows "int (length (data m ! nat y)) = maxX m + 1"
proof -
  have "nat y < length (data m)" using assms unfolding rectangular_def by linarith
  then have "data m ! nat y \<in> set (data m)" by simp
  then show ?thesis using assms(1) by (simp add: rectangular_def list_all_iff)
qed


lemma getWater_in:
  assumes "rectangular m" "in_grid m x y"
  shows "getWater m x y = Inr (water_at m x y)"
proof -
  have y: "0 \<le> y" "y < int (length (data m))" using assms by (simp_all add: rectangular_def in_grid_def)
  have x: "0 \<le> x" "x < int (length (data m ! nat y))" 
    using assms row_length[of m y] by (simp_all add: in_grid_def)
  show ?thesis using assms(2)
    by (simp add: getWater_def in_grid_def bind_err_def py_index_ok[OF y] py_index_ok[OF x] water_at_def)
qed





lemma hgtMap_init_rectangular:
  assumes "hgtMap_init hs = Inr m" "list_all (\<lambda>row. length row = length (hd hs)) hs"
  shows "rectangular m"
proof -
  from assms(1) obtain row0 where r: "py_index hs 0 = Inr row0"
    and m: "m = \<lparr>data = map (map (\<lambda>height. (height, 0))) hs, maxX = int (length row0) - 1,
                  maxY = int (length hs) - 1, minFloodHeight = 0\<rparr>"
    by (auto simp: hgtMap_init_def bind_err_def split: sum.splits)
  from r have "hs \<noteq> []" "row0 = hd hs"
    by (auto simp: py_index_def hd_conv_nth split: if_splits)
  then show ?thesis
    using assms(2) by (cases hs) (auto simp: rectangular_def m list_all_iff)
qed

subsection \<open>The weight sum of a cell\<close>


subsection \<open>Writes past the end of the delta grid\<close>


subsection \<open>Evaluating the code on the example grids\<close>

lemma weight_overflow_int: "k \<le> - 2130 \<Longrightarrow> weight (real_of_int k) = Inl OverflowError"
  by (rule weight_overflow) linarith

lemmas tick_eval = tick_def cells_def nbhd_def py_range_def new_deltas_def tick_cell_def getWater_def
  getHeight_def bind_err_def py_index_def py_store_def py_div_def spread_step_def delta_store_def
  delta_read_def setWater_def data_write_def weight_defined weight_overflow weight_of_0 Let_def
  upto.simps weight_of_nonneg weight_of_ne0 add_nonneg_eq_0_iff

text \<open>
  A neighbour far below the cell aborts the tick: on \<open>cliff2\<close> the cell \<open>(1, 0)\<close> reads its
  neighbour \<open>(0, 0)\<close> 32768 below, and \<^verbatim>\<open>weight\<close> raises outside the
  \<^verbatim>\<open>try\<close>.
\<close>

lemma tick_cliff2_overflow: "tick cliff2 = Inl OverflowError"
  by (simp add: tick_eval cliff2_def)

subsection \<open>What a neighbour receives\<close>

text \<open>
  C1 (the code departs from it). On \<open>bump3\<close> the centre \<open>(1, 1)\<close> holds 100 and its
  neighbour \<open>(0, 0)\<close> lies 3 higher. The weight sum is \<open>4 + weight 3\<close>, and the value the
  code assigns for that neighbour is \<open>100 * weight 0 / weightSum\<close>, not
  \<open>100 * weight 3 / weightSum\<close>: the neighbour's own height difference is not used.
\<close>

theorem neighbour_share_uses_weight_0:
  "weightSum_loop bump3 (height_at bump3 1 1) 0 (nbhd 1 1) = Inr (4 + weight_of 3) \<and>
   bind_err (spread_step 1 1 100 (4 + weight_of 3) (new_deltas bump3) (0, 0)) (\<lambda>d. delta_read d 0 0) =
     Inr (100 * weight_of 0 / (4 + weight_of 3)) \<and>
   100 * weight_of 0 / (4 + weight_of 3) \<noteq>
     100 * weight_of (real_of_int (height_at bump3 0 0 - height_at bump3 1 1)) / (4 + weight_of 3)"
proof -
  have h: "height_at bump3 1 1 = 0" "height_at bump3 0 0 = 3"
    by (simp_all add: height_at_def bump3_def)
  have 1: "weightSum_loop bump3 0 0 (nbhd 1 1) = Inr (4 + weight_of 3)"
    by (simp add: tick_eval bump3_def)
  have 2: "bind_err (spread_step 1 1 100 (4 + weight_of 3) (new_deltas bump3) (0, 0)) (\<lambda>d. delta_read d 0 0) =
     Inr (100 * weight_of 0 / (4 + weight_of 3))"
    by (simp add: tick_eval bump3_def)
  have "weight_of 0 < weight_of 3" by (rule weight_of_strict_mono) simp
  moreover have "0 < 4 + weight_of 3" using weight_of_pos[of 3] by simp
  ultimately have 3: "100 * weight_of 0 / (4 + weight_of 3) \<noteq> 100 * weight_of 3 / (4 + weight_of 3)"
    by (simp add: field_simps)
  show ?thesis using 1 2 3 by (simp add: h)
qed

subsection \<open>The delta grid\<close>

text \<open>
  C2 (the code departs from it). The rows of the delta grid are one shared object: on the
  two-row grid \<open>column2\<close>, \<open>deltas[0][0]\<close> is 0 at first and reads 5 after the
  assignment \<open>deltas[1][0] = 5\<close>. Contributions are assigned, not summed: when the cells
  \<open>(0, 1)\<close> and \<open>(2, 1)\<close> (water 8 and 12, weight sum 2) both write their share for the
  neighbour \<open>(1, 1)\<close>, the delta stored for it is the second share, 3, not 2 + 3.
\<close>

theorem delta_rows_share_storage:
  "delta_read (new_deltas column2) 0 0 = Inr 0 \<and>
   bind_err (delta_store (new_deltas column2) 1 0 5) (\<lambda>d. delta_read d 0 0) = Inr 5 \<and>
   bind_err (spread_step 0 1 8 2 (new_deltas (flat3 1)) (1, 1)) (\<lambda>d.
     bind_err (spread_step 2 1 12 2 d (1, 1)) (\<lambda>d. delta_read d 1 1)) = Inr 3"
  by (simp add: tick_eval column2_def flat3_def)

subsection \<open>Mass and sign of the water\<close>

text \<open>
  C3 (the code departs from it). On \<open>flat3 1\<close> only the centre cell reaches the threshold
  and its whole neighbourhood is on the grid; the grid holds 100 before the tick and 200
  after it.
\<close>

theorem tick_flat3_doubles_water:
  "total_water (flat3 1) = 100 \<and>
   bind_err (tick (flat3 1)) (\<lambda>m. Inr (total_water m)) = Inr 200"
  by (simp add: tick_eval flat3_def total_water_def)

text \<open>
  C4 (the code departs from it). The scenario of the specification, \<open>flat3 0\<close>: one tick
  returns the grid as it was, 100 on the centre and 0 elsewhere, not 100/9 on every cell.
\<close>

theorem tick_flat3_unchanged:
  "tick (flat3 0) = Inr (flat3 0) \<and> getWater (flat3 0) 1 1 = Inr 100 \<and>
   getWater (flat3 0) 0 0 = Inr 0"
  by (simp add: tick_eval flat3_def)

text \<open>
  C9 (the code departs from it). On \<open>column2\<close> every cell holds water \<open>\<ge> 0\<close>; after one
  tick the cell \<open>(0, 0)\<close> holds \<open>50 / (7 * weight 10000000 + 1) - 100\<close>, a negative
  volume.
\<close>

theorem tick_column2_negative:
  "list_all (list_all (\<lambda>cell. 0 \<le> snd cell)) (data column2) \<and>
   bind_err (tick column2) (\<lambda>m. getWater m 0 0) = Inr (50 / (7 * weight_of 10000000 + 1) - 100) \<and>
   50 / (7 * weight_of 10000000 + 1) - 100 < 0"
proof -
  have 1: "list_all (list_all (\<lambda>cell. 0 \<le> snd cell)) (data column2)"
    by (simp add: column2_def)
  have 2: "bind_err (tick column2) (\<lambda>m. getWater m 0 0) = Inr (50 / (7 * weight_of 10000000 + 1) - 100)"
    by (simp add: tick_eval column2_def)
  have "1 < 7 * weight_of 10000000 + 1" using weight_of_pos[of 10000000] by simp
  then have "50 / (7 * weight_of 10000000 + 1) < 50" by (simp add: field_simps)
  then show ?thesis using 1 2 by simp
qed

subsection \<open>Off-grid neighbours\<close>




subsection \<open>Errors\<close>




text \<open>
  C8 (the code departs from it). On the one-row grid \<open>row2\<close> the coordinate \<open>(-1, 0)\<close> is
  out of bounds, and \<^verbatim>\<open>setWater(-1, 0, 5)\<close> returns normally with the water of the
  cell \<open>(1, 0)\<close> set to 5.
\<close>

theorem setWater_negative_index_writes:
  "\<not> in_grid row2 (- 1) 0 \<and>
   setWater row2 (- 1) 0 5 = Inr (row2\<lparr>data := [[(0, 0), (0, 5)]]\<rparr>)"
  by (simp add: tick_eval row2_def in_grid_def)

end
